theory Spec2Isabelle
  imports Main
begin

section \<open>JavaScript values\<close>

text \<open>
  A Number, as far as this code observes one: it tests numbers for truthiness and converts
  them to strings, and does no arithmetic.  A number is \<^verbatim>\<open>NaN\<close>, a zero, or another
  number, which is given by the string it converts to: \<^verbatim>\<open>42\<close> is \<open>Nonzero ''42''\<close>,
  \<^verbatim>\<open>2.5\<close> is \<open>Nonzero ''2.5''\<close> and \<^verbatim>\<open>1e21\<close> is \<open>Nonzero ''1e+21''\<close>.
\<close>

datatype number = NaN | Zero | Nonzero string

text \<open>
  The transport and the services handle untyped data (\<^verbatim>\<open>any\<close>).  A value is a tree: an
  object is the list of its own properties, each name bound at most once.  A tree holds
  no cycle; \<open>JBigInt\<close> is the plain value on which \<^verbatim>\<open>JSON.stringify\<close> throws, and a
  function, given by its source text, is the value for which it returns \<^verbatim>\<open>undefined\<close>.
\<close>

datatype jsval =
    JUndefined
  | JNull
  | JBool bool
  | JNum number
  | JBigInt int
  | JStr string
  | JFunction string
  | JArr "jsval list"
  | JObj "(string \<times> jsval) list"

text \<open>Truthiness, as \<^verbatim>\<open>!x\<close>, \<^verbatim>\<open>x || y\<close> and \<^verbatim>\<open>if (x)\<close> test it.\<close>

fun truthy :: "jsval \<Rightarrow> bool" where
  "truthy JUndefined = False"
| "truthy JNull = False"
| "truthy (JBool b) = b"
| "truthy (JNum NaN) = False"
| "truthy (JNum Zero) = False"
| "truthy (JNum (Nonzero s)) = True"
| "truthy (JBigInt n) = (n \<noteq> 0)"
| "truthy (JStr s) = (s \<noteq> [])"
| "truthy (JFunction src) = True"
| "truthy (JArr xs) = True"
| "truthy (JObj kvs) = True"

text \<open>\<^verbatim>\<open>a || b\<close> and \<^verbatim>\<open>a ?? b\<close>.\<close>

definition js_or :: "jsval \<Rightarrow> jsval \<Rightarrow> jsval" where
  "js_or a b = (if truthy a then a else b)"

definition nullish :: "jsval \<Rightarrow> jsval \<Rightarrow> jsval" where
  "nullish a b = (if a = JUndefined \<or> a = JNull then b else a)"

text \<open>
  The string conversion that a template literal \<^verbatim>\<open>`${x}`\<close> and \<^verbatim>\<open>JSON.parse(x)\<close> apply
  to their argument.  A BigInt prints as its decimal numeral, whatever its size.
\<close>

fun digits :: "nat \<Rightarrow> string" where
  "digits n =
     (if n < 10 then [''0123456789'' ! n]
      else digits (n div 10) @ [''0123456789'' ! (n mod 10)])"

declare digits.simps [simp del]

fun join :: "string \<Rightarrow> string list \<Rightarrow> string" where
  "join sep [] = []"
| "join sep [x] = x"
| "join sep (x # y # ys) = x @ sep @ join sep (y # ys)"

fun ToString :: "jsval \<Rightarrow> string" where
  "ToString JUndefined = ''undefined''"
| "ToString JNull = ''null''"
| "ToString (JBool b) = (if b then ''true'' else ''false'')"
| "ToString (JNum NaN) = ''NaN''"
| "ToString (JNum Zero) = ''0''"
| "ToString (JNum (Nonzero s)) = s"
| "ToString (JBigInt n) = (if n < 0 then ''-'' @ digits (nat (- n)) else digits (nat n))"
| "ToString (JStr s) = s"
| "ToString (JFunction src) = src"
| "ToString (JArr xs) =
     join '','' (map (\<lambda>x. if x = JUndefined \<or> x = JNull then [] else ToString x) xs)"
| "ToString (JObj kvs) = ''[object Object]''"

text \<open>\<^verbatim>\<open>String.prototype.toLowerCase\<close> on the letters of an HTTP method name.\<close>

definition lower_char :: "char \<Rightarrow> char" where
  "lower_char c =
     (case map_of (zip ''ABCDEFGHIJKLMNOPQRSTUVWXYZ'' ''abcdefghijklmnopqrstuvwxyz'') c of
        None \<Rightarrow> c
      | Some d \<Rightarrow> d)"

definition toLowerCase :: "string \<Rightarrow> string" where
  "toLowerCase s = map lower_char s"

text \<open>Reading the property \<open>k\<close> of an object: \<^verbatim>\<open>undefined\<close> when the object has none.\<close>

definition property :: "(string \<times> jsval) list \<Rightarrow> string \<Rightarrow> jsval" where
  "property kvs k = (case map_of kvs k of None \<Rightarrow> JUndefined | Some v \<Rightarrow> v)"

section \<open>Results, errors and the platform\<close>

text \<open>
  The \<^verbatim>\<open>Response\<close> of \<^verbatim>\<open>fetch\<close>: its status and what \<^verbatim>\<open>response.text()\<close> yields
  (\<open>None\<close> when that promise rejects).
\<close>

record response =
  status :: nat
  response_text :: "string option"

text \<open>\<^verbatim>\<open>interface Result<T> { response; data?; text? }\<close>, \<open>text = None\<close> being \<^verbatim>\<open>null\<close>.\<close>

record result =
  response :: response
  "text" :: "string option"
  data :: jsval

text \<open>
  Thrown values.  \<open>Error msg fields\<close> is \<^verbatim>\<open>new Error(msg)\<close>, with the fields that
  \<^verbatim>\<open>Object.assign\<close> copied onto it, if any.  A throw inside an \<^verbatim>\<open>async\<close> body (the
  promise rejects) and a throw of a plain method are both the left summand of the outcome.
\<close>

datatype error =
    Error string "result option"
  | TypeError
  | SyntaxError
  | ReferenceError string

text \<open>
  The options object handed to \<^verbatim>\<open>fetch\<close>; \<open>body = None\<close> when \<^verbatim>\<open>opts.body\<close> was never
  set or is \<^verbatim>\<open>undefined\<close>: the request then has no body.
\<close>

record fetch_opts =
  "method" :: string
  headers :: "(string \<times> string) list"
  body :: "string option"

text \<open>
  The built-ins of the runtime are parameters of the model: \<^verbatim>\<open>JSON.stringify\<close> (which
  throws, as on a cycle or a BigInt, or returns \<^verbatim>\<open>undefined\<close>, here \<open>None\<close>, as on a
  function, or returns the JSON text), \<^verbatim>\<open>JSON.parse\<close> (which throws on text
  that is not JSON) and \<^verbatim>\<open>fetch\<close> (which rejects when the request fails, and otherwise
  answers the URL and options with a response).
\<close>

record platform =
  JSON_stringify :: "jsval \<Rightarrow> error + string option"
  JSON_parse :: "string \<Rightarrow> error + jsval"
  fetch :: "string \<Rightarrow> fetch_opts \<Rightarrow> error + response"

text \<open>
  What a call yields: the value it resolves with or the error it throws, and the network
  requests it issued, in order.
\<close>

type_synonym sent = "(string \<times> fetch_opts) list"

type_synonym 'a outcome = "(error + 'a) \<times> sent"

section \<open>The transport: request-tool.ts\<close>

record RequestTool =
  baseUrl :: string
  token :: string

text \<open>\<^verbatim>\<open>#getHeaders\<close>: the \<^verbatim>\<open>switch\<close> falls through its three cases to one assignment.\<close>

definition getHeaders :: "RequestTool \<Rightarrow> string \<Rightarrow> (string \<times> string) list" where
  "getHeaders tool meth =
     (let hdrs = [(''Authorization'', ''Bearer '' @ token tool),
                  (''Accept'', ''application/json, text/plain, */*'')]
      in if toLowerCase meth \<in> set [''put'', ''post'', ''patch'']
         then hdrs @ [(''Content-Type'', ''application/json'')]
         else hdrs)"

text \<open>
  Lines 32 to 38 of \<^verbatim>\<open>#query\<close>: the options; when the body is not \<^verbatim>\<open>undefined\<close>,
  \<^verbatim>\<open>opts.body\<close> is assigned what \<^verbatim>\<open>JSON.stringify\<close> returns.  A throw of
  \<^verbatim>\<open>JSON.stringify\<close> leaves the function here.
\<close>

definition build_opts :: "RequestTool \<Rightarrow> platform \<Rightarrow> string \<Rightarrow> jsval \<Rightarrow> error + fetch_opts" where
  "build_opts tool pf meth payload =
     (let opts = \<lparr>method = meth, headers = getHeaders tool meth, body = None\<rparr>
      in if payload \<noteq> JUndefined
         then (case JSON_stringify pf payload of
                 Inl e \<Rightarrow> Inl e
               | Inr s \<Rightarrow> Inr (opts\<lparr>body := s\<rparr>))
         else Inr opts)"

text \<open>
  Lines 42 to 50: \<open>data\<close> starts as \<^verbatim>\<open>null\<close>; when the text is truthy the source evaluates
  \<^verbatim>\<open>JSON.parse(data)\<close>, on the variable \<open>data\<close> itself, and the \<^verbatim>\<open>catch\<close> swallows a throw.
\<close>

definition decode :: "platform \<Rightarrow> string option \<Rightarrow> jsval" where
  "decode pf txt =
     (let dat = JNull
      in if (case txt of None \<Rightarrow> False | Some s \<Rightarrow> s \<noteq> [])
         then (case JSON_parse pf (ToString dat) of Inl e \<Rightarrow> dat | Inr v \<Rightarrow> v)
         else dat)"

text \<open>Lines 52 to 67: the two status tests, then the result.\<close>

definition classify :: "result \<Rightarrow> error + result" where
  "classify r =
     (if status (response r) > 500 then Inl (Error ''Server Error Result'' (Some r))
      else if status (response r) > 400 then Inl (Error ''Client Error Result'' (Some r))
      else Inr r)"

definition query :: "RequestTool \<Rightarrow> platform \<Rightarrow> string \<Rightarrow> string \<Rightarrow> jsval \<Rightarrow> result outcome" where
  "query tool pf meth path payload =
     (case build_opts tool pf meth payload of
        Inl e \<Rightarrow> (Inl e, [])
      | Inr opts \<Rightarrow>
          (let url = baseUrl tool @ path
           in case fetch pf url opts of
                Inl e \<Rightarrow> (Inl e, [(url, opts)])
              | Inr resp \<Rightarrow>
                  (let txt = response_text resp;
                       dat = decode pf txt
                   in (classify \<lparr>response = resp, text = txt, data = dat\<rparr>, [(url, opts)]))))"

definition head :: "RequestTool \<Rightarrow> platform \<Rightarrow> string \<Rightarrow> result outcome" where
  "head tool pf path = query tool pf ''HEAD'' path JUndefined"

definition get :: "RequestTool \<Rightarrow> platform \<Rightarrow> string \<Rightarrow> result outcome" where
  "get tool pf path = query tool pf ''GET'' path JUndefined"

definition put :: "RequestTool \<Rightarrow> platform \<Rightarrow> string \<Rightarrow> jsval \<Rightarrow> result outcome" where
  "put tool pf path v = query tool pf ''PUT'' path v"

definition post :: "RequestTool \<Rightarrow> platform \<Rightarrow> string \<Rightarrow> jsval \<Rightarrow> result outcome" where
  "post tool pf path v = query tool pf ''POST'' path v"

definition patch :: "RequestTool \<Rightarrow> platform \<Rightarrow> string \<Rightarrow> jsval \<Rightarrow> result outcome" where
  "patch tool pf path v = query tool pf ''PATCH'' path v"

definition delete :: "RequestTool \<Rightarrow> platform \<Rightarrow> string \<Rightarrow> jsval \<Rightarrow> result outcome" where
  "delete tool pf path v = query tool pf ''DELETE'' path v"

section \<open>Services\<close>

text \<open>
  Reading \<^verbatim>\<open>x.k\<close> where \<open>x\<close> is any value: a \<^verbatim>\<open>TypeError\<close> on \<^verbatim>\<open>null\<close> and
  \<^verbatim>\<open>undefined\<close>, the own property of an object, and \<^verbatim>\<open>undefined\<close> otherwise (the
  services read the keys \<^verbatim>\<open>action\<close> and \<^verbatim>\<open>actions\<close>, which no prototype defines).
\<close>

fun member :: "jsval \<Rightarrow> string \<Rightarrow> error + jsval" where
  "member JUndefined k = Inl TypeError"
| "member JNull k = Inl TypeError"
| "member (JObj kvs) k = Inr (property kvs k)"
| "member v k = Inr JUndefined"

text \<open>\<^verbatim>\<open>.then(response => response.data.k)\<close> on the promise of a transport call.\<close>

definition then_data :: "result outcome \<Rightarrow> string \<Rightarrow> jsval outcome" where
  "then_data p k =
     (case fst p of
        Inl e \<Rightarrow> (Inl e, snd p)
      | Inr r \<Rightarrow> (member (data r) k, snd p))"

subsection \<open>block-storage-actions-service.ts\<close>

text \<open>
  An \<^verbatim>\<open>ActionRequest\<close> is an object, given by its properties; the interface itself
  (\<^verbatim>\<open>models/action.ts\<close>) is not needed to run the validators, which read four of its fields.
\<close>

type_synonym ActionRequest = "(string \<times> jsval) list"

definition attachActionIsValid :: "ActionRequest \<Rightarrow> bool" where
  "attachActionIsValid action =
     (if \<not> truthy (property action ''type'') \<or> \<not> truthy (property action ''droplet_id'')
      then False else True)"

definition attachActionByNameIsValid :: "ActionRequest \<Rightarrow> bool" where
  "attachActionByNameIsValid action =
     (if \<not> attachActionIsValid action \<or> \<not> truthy (property action ''volume_name'')
      then False else True)"

definition resizeActionIsValid :: "ActionRequest \<Rightarrow> bool" where
  "resizeActionIsValid action =
     (if \<not> truthy (property action ''type'') \<or> \<not> truthy (property action ''size_gigabytes'')
      then False else True)"

definition attachVolumeToDroplet ::
  "RequestTool \<Rightarrow> platform \<Rightarrow> string \<Rightarrow> ActionRequest \<Rightarrow> jsval outcome" where
  "attachVolumeToDroplet tool pf volumeId actionRequest =
     (if \<not> attachActionIsValid actionRequest
      then (Inl (Error ''Required fields missing from Action Object'' None), [])
      else then_data (post tool pf (''/volumes/'' @ volumeId @ ''/actions'') (JObj actionRequest))
             ''action'')"

definition attachVolumeToDropletByName ::
  "RequestTool \<Rightarrow> platform \<Rightarrow> ActionRequest \<Rightarrow> jsval outcome" where
  "attachVolumeToDropletByName tool pf actionRequest =
     (if \<not> attachActionByNameIsValid actionRequest
      then (Inl (Error ''Required fields missing from Action Object'' None), [])
      else then_data (post tool pf ''/volumes/actions'' (JObj actionRequest)) ''action'')"

definition detachVolumeFromDroplet ::
  "RequestTool \<Rightarrow> platform \<Rightarrow> string \<Rightarrow> ActionRequest \<Rightarrow> jsval outcome" where
  "detachVolumeFromDroplet tool pf volumeId actionRequest =
     (if \<not> attachActionIsValid actionRequest
      then (Inl (Error ''Required fields missing from Action Object'' None), [])
      else then_data (post tool pf (''/volumes/'' @ volumeId @ ''/actions'') (JObj actionRequest))
             ''action'')"

definition detachVolumeFromDropletByName ::
  "RequestTool \<Rightarrow> platform \<Rightarrow> ActionRequest \<Rightarrow> jsval outcome" where
  "detachVolumeFromDropletByName tool pf actionRequest =
     (if \<not> attachActionByNameIsValid actionRequest
      then (Inl (Error ''Required fields missing from Action Object'' None), [])
      else then_data (post tool pf ''/volumes/actions'' (JObj actionRequest)) ''action'')"

definition resizeVolume ::
  "RequestTool \<Rightarrow> platform \<Rightarrow> string \<Rightarrow> ActionRequest \<Rightarrow> jsval outcome" where
  "resizeVolume tool pf volumeId actionRequest =
     (if \<not> resizeActionIsValid actionRequest
      then (Inl (Error ''Required fields missing from Action Object'' None), [])
      else then_data (post tool pf (''/volumes/'' @ volumeId @ ''/actions'') (JObj actionRequest))
             ''action'')"

text \<open>An omitted argument is \<^verbatim>\<open>undefined\<close>.  The page uses \<^verbatim>\<open>??\<close>, the page size \<^verbatim>\<open>||\<close>.\<close>

definition getAllVolumeActions ::
  "RequestTool \<Rightarrow> platform \<Rightarrow> string \<Rightarrow> jsval \<Rightarrow> jsval \<Rightarrow> jsval outcome" where
  "getAllVolumeActions tool pf volumeId perPage page =
     (let page1 = nullish page (JNum (Nonzero ''1''));
          perPage1 = js_or perPage (JNum (Nonzero ''25''));
          url = ''/volumes/'' @ volumeId @ ''/actions?page='' @ ToString page1
                @ ''&per_page='' @ ToString perPage1
      in then_data (get tool pf url) ''actions'')"

subsection \<open>floating-ip-actions-service.ts\<close>

text \<open>
  Reading an identifier: the bindings in scope are searched, and a name bound nowhere
  throws a \<^verbatim>\<open>ReferenceError\<close>.
\<close>

definition resolve :: "(string \<times> jsval) list \<Rightarrow> string \<Rightarrow> error + jsval" where
  "resolve scope name =
     (case map_of scope name of
        None \<Rightarrow> Inl (ReferenceError name)
      | Some v \<Rightarrow> Inr v)"

text \<open>
  \<^verbatim>\<open>unassignFloatingIP\<close> declares \<open>data\<close> and passes \<^verbatim>\<open>redataquest\<close>.  The arguments of
  \<^verbatim>\<open>request.post\<close> are evaluated before the call; the method's scope holds its parameter
  and \<open>data\<close>, and neither the module nor the runtime defines the other name.
\<close>

definition unassignFloatingIP :: "RequestTool \<Rightarrow> platform \<Rightarrow> string \<Rightarrow> jsval outcome" where
  "unassignFloatingIP tool pf floatingIPAddress =
     (let scope = [(''floatingIPAddress'', JStr floatingIPAddress),
                   (''data'', JObj [(''type'', JStr ''unassign'')])]
      in case resolve scope ''redataquest'' of
           Inl e \<Rightarrow> (Inl e, [])
         | Inr v \<Rightarrow>
             then_data (post tool pf (''/floating_ips/'' @ floatingIPAddress @ ''/actions'') v)
               ''action'')"

text \<open>\<^verbatim>\<open>ActionService.getAllActions\<close>: both defaults use \<^verbatim>\<open>||\<close>.\<close>

definition getAllActions :: "RequestTool \<Rightarrow> platform \<Rightarrow> jsval \<Rightarrow> jsval \<Rightarrow> jsval outcome" where
  "getAllActions tool pf perPage page =
     (let page1 = js_or page (JNum (Nonzero ''1''));
          perPage1 = js_or perPage (JNum (Nonzero ''25''));
          url = ''/actions?page='' @ ToString page1 @ ''&per_page='' @ ToString perPage1
      in then_data (get tool pf url) ''actions'')"

section \<open>What a caller observes\<close>

text \<open>
  The thrown \<^verbatim>\<open>Error\<close> has no field for its kind: a caller tells a client error from a
  server error by the message, and reads the response, the text and the data from the
  fields copied onto the error.
\<close>

datatype kind = ClientError | ServerError

fun kind_of :: "error + 'a \<Rightarrow> kind option" where
  "kind_of (Inl (Error msg copied)) =
     (if msg = ''Server Error Result'' then Some ServerError
      else if msg = ''Client Error Result'' then Some ClientError
      else None)"
| "kind_of x = None"

fun thrown_fields :: "error + 'a \<Rightarrow> result option" where
  "thrown_fields (Inl (Error msg copied)) = copied"
| "thrown_fields x = None"

text \<open>
  Every request of the list carries the \<^verbatim>\<open>Accept\<close> header, the bearer token of the tool,
  and the given \<^verbatim>\<open>Content-Type\<close> (\<open>None\<close>: the header is not there).
\<close>

definition sends_headers :: "RequestTool \<Rightarrow> string option \<Rightarrow> sent \<Rightarrow> bool" where
  "sends_headers tool ct reqs =
     list_all (\<lambda>req.
         map_of (headers (snd req)) ''Accept'' = Some ''application/json, text/plain, */*''
       \<and> map_of (headers (snd req)) ''Authorization'' = Some (''Bearer '' @ token tool)
       \<and> map_of (headers (snd req)) ''Content-Type'' = ct) reqs"

section \<open>A scripted platform\<close>

text \<open>
  A platform whose answers are fixed in advance, on which the definitions above evaluate:
  \<^verbatim>\<open>JSON.parse\<close> and \<^verbatim>\<open>JSON.stringify\<close> know the texts and values of the table;
  \<^verbatim>\<open>JSON.stringify\<close> returns \<^verbatim>\<open>undefined\<close> on a function and throws on what is left;
  \<^verbatim>\<open>fetch\<close> answers by URL.
\<close>

definition demo_tool :: RequestTool where
  "demo_tool = \<lparr>baseUrl = ''https://api.test/v2'', token = ''abc123''\<rparr>"

definition not_found_text :: string where
  \<open>not_found_text = ''{"id":"not_found"}''\<close>

definition not_found_value :: jsval where
  "not_found_value = JObj [(''id'', JStr ''not_found'')]"

definition accepted_text :: string where
  \<open>accepted_text = ''{"action":{"id":9,"status":"in-progress"}}''\<close>

definition accepted_value :: jsval where
  "accepted_value =
     JObj [(''action'', JObj [(''id'', JNum (Nonzero ''9'')), (''status'', JStr ''in-progress'')])]"

definition attach_request :: ActionRequest where
  "attach_request =
     [(''type'', JStr ''attach''), (''droplet_id'', JNum (Nonzero ''42'')),
      (''region'', JStr ''nyc1'')]"

definition attach_text :: string where
  \<open>attach_text = ''{"type":"attach","droplet_id":42,"region":"nyc1"}''\<close>

definition attach_by_name_request :: ActionRequest where
  "attach_by_name_request =
     [(''type'', JStr ''attach''), (''volume_name'', JStr ''example''), (''region'', JStr ''nyc1''),
      (''droplet_id'', JNum (Nonzero ''116121901''))]"

definition attach_by_name_text :: string where
  \<open>attach_by_name_text =
     ''{"type":"attach","volume_name":"example","region":"nyc1","droplet_id":116121901}''\<close>

definition resize_request :: ActionRequest where
  "resize_request =
     [(''type'', JStr ''resize''), (''size_gigabytes'', JNum (Nonzero ''100'')),
      (''region'', JStr ''nyc1'')]"

definition resize_text :: string where
  \<open>resize_text = ''{"type":"resize","size_gigabytes":100,"region":"nyc1"}''\<close>

definition scripted_parse :: "string \<Rightarrow> error + jsval" where
  "scripted_parse s =
     (case map_of [(''null'', JNull), (not_found_text, not_found_value),
                   (accepted_text, accepted_value)] s of
        None \<Rightarrow> Inl SyntaxError
      | Some v \<Rightarrow> Inr v)"

definition scripted_stringify :: "jsval \<Rightarrow> error + string option" where
  "scripted_stringify v =
     (case v of
        JFunction src \<Rightarrow> Inr None
      | _ \<Rightarrow>
          (case map_of [(JObj attach_request, attach_text),
                        (JObj attach_by_name_request, attach_by_name_text),
                        (JObj resize_request, resize_text),
                        (JNull, ''null'')] v of
             None \<Rightarrow> Inl TypeError
           | Some s \<Rightarrow> Inr (Some s)))"

definition scripted_fetch :: "string \<Rightarrow> fetch_opts \<Rightarrow> error + response" where
  "scripted_fetch url opts =
     (if url = ''https://api.test/v2/droplets/999''
      then Inr \<lparr>status = 404, response_text = Some not_found_text\<rparr>
      else if url = ''https://api.test/v2/volumes/v1/actions''
      then Inr \<lparr>status = 202, response_text = Some accepted_text\<rparr>
      else if url = ''https://api.test/v2/down''
      then Inr \<lparr>status = 503, response_text = Some ''Service Unavailable''\<rparr>
      else if url = ''https://api.test/v2/unreachable''
      then Inl TypeError
      else Inr \<lparr>status = 200, response_text = Some ''ok''\<rparr>)"

definition scripted :: platform where
  "scripted = \<lparr>JSON_stringify = scripted_stringify, JSON_parse = scripted_parse,
                fetch = scripted_fetch\<rparr>"

section \<open>Facts about the transport\<close>

lemma query_throws:
  "build_opts tool pf meth payload = Inl e \<Longrightarrow> query tool pf meth path payload = (Inl e, [])"
  by (simp add: query_def)

lemma query_sent:
  "build_opts tool pf meth payload = Inr opts \<Longrightarrow>
     snd (query tool pf meth path payload) = [(baseUrl tool @ path, opts)]"
  by (simp add: query_def Let_def split: sum.splits)

lemma query_fetched:
  "build_opts tool pf meth payload = Inr opts \<Longrightarrow>
   fetch pf (baseUrl tool @ path) opts = Inr resp \<Longrightarrow>
     fst (query tool pf meth path payload) =
       classify \<lparr>response = resp, text = response_text resp,
                 data = decode pf (response_text resp)\<rparr>"
  by (simp add: query_def Let_def)

lemma build_opts_undefined:
  "build_opts tool pf meth JUndefined =
     Inr \<lparr>method = meth, headers = getHeaders tool meth, body = None\<rparr>"
  by (simp add: build_opts_def)

lemma build_opts_defined:
  "payload \<noteq> JUndefined \<Longrightarrow>
     build_opts tool pf meth payload =
       (case JSON_stringify pf payload of
          Inl e \<Rightarrow> Inl e
        | Inr b \<Rightarrow> Inr \<lparr>method = meth, headers = getHeaders tool meth, body = b\<rparr>)"
  by (simp add: build_opts_def split: sum.splits)

lemma decode_parses_null:
  "decode pf t =
     (if t = None \<or> t = Some [] then JNull
      else case JSON_parse pf ''null'' of Inl e \<Rightarrow> JNull | Inr v \<Rightarrow> v)"
  by (cases t) (simp_all add: decode_def)

lemma then_data_sent: "snd (then_data p k) = snd p"
  by (simp add: then_data_def split: sum.splits)

lemma scripted_simps:
  "JSON_stringify scripted = scripted_stringify"
  "JSON_parse scripted = scripted_parse"
  "fetch scripted = scripted_fetch"
  by (simp_all add: scripted_def)

lemma demo_tool_simps:
  "baseUrl demo_tool = ''https://api.test/v2''"
  "token demo_tool = ''abc123''"
  by (simp_all add: demo_tool_def)

lemma lower_literals:
  "toLowerCase ''HEAD'' = ''head''"
  "toLowerCase ''GET'' = ''get''"
  "toLowerCase ''PUT'' = ''put''"
  "toLowerCase ''POST'' = ''post''"
  "toLowerCase ''PATCH'' = ''patch''"
  "toLowerCase ''DELETE'' = ''delete''"
  by (simp_all add: toLowerCase_def lower_char_def)

lemma getHeaders_demo:
  "getHeaders demo_tool ''GET'' =
     [(''Authorization'', ''Bearer abc123''), (''Accept'', ''application/json, text/plain, */*'')]"
  "getHeaders demo_tool ''HEAD'' =
     [(''Authorization'', ''Bearer abc123''), (''Accept'', ''application/json, text/plain, */*'')]"
  "getHeaders demo_tool ''DELETE'' =
     [(''Authorization'', ''Bearer abc123''), (''Accept'', ''application/json, text/plain, */*'')]"
  "getHeaders demo_tool ''POST'' =
     [(''Authorization'', ''Bearer abc123''), (''Accept'', ''application/json, text/plain, */*''),
      (''Content-Type'', ''application/json'')]"
  "getHeaders demo_tool ''PUT'' =
     [(''Authorization'', ''Bearer abc123''), (''Accept'', ''application/json, text/plain, */*''),
      (''Content-Type'', ''application/json'')]"
  "getHeaders demo_tool ''PATCH'' =
     [(''Authorization'', ''Bearer abc123''), (''Accept'', ''application/json, text/plain, */*''),
      (''Content-Type'', ''application/json'')]"
  by (simp_all add: getHeaders_def lower_literals demo_tool_simps)

section \<open>Serialisation comes first\<close>




section \<open>The unassign action\<close>

text \<open>
  Claim C8.  Whatever the address, \<^verbatim>\<open>unassignFloatingIP\<close> throws the
  \<^verbatim>\<open>ReferenceError\<close> of the name \<^verbatim>\<open>redataquest\<close> and has issued no request: it never
  yields an action.
\<close>

theorem unassignFloatingIP_throws:
  "unassignFloatingIP tool pf floatingIPAddress = (Inl (ReferenceError ''redataquest''), [])"
  by (simp add: unassignFloatingIP_def resolve_def)

section \<open>Classification by status\<close>

lemma kind_of_classify:
  "kind_of (classify r) =
     (if 500 < status (response r) then Some ServerError
      else if 400 < status (response r) then Some ClientError
      else None)"
  by (simp add: classify_def)

lemma isl_classify: "isl (classify r) = (400 < status (response r))"
  by (simp add: classify_def)

lemma thrown_fields_classify:
  "thrown_fields (classify r) = (if 400 < status (response r) then Some r else None)"
  by (simp add: classify_def)

text \<open>
  Claim C2.  Once a response has arrived, its status alone decides the band: above 500 the
  call throws the error a caller reads as a server error; above 400 and up to 500 it
  throws the client error, whose \<^verbatim>\<open>response.status\<close> is the status received; up to 400
  it throws nothing.  Two calls whose responses have the same status fall in the same
  band, whatever else differs between them.
\<close>

theorem classified_by_status:
  assumes "build_opts tool pf meth payload = Inr opts"
      and "fetch pf (baseUrl tool @ path) opts = Inr resp"
  shows "(500 < status resp \<longrightarrow>
            kind_of (fst (query tool pf meth path payload)) = Some ServerError)
       \<and> (400 < status resp \<and> status resp \<le> 500 \<longrightarrow>
            kind_of (fst (query tool pf meth path payload)) = Some ClientError
          \<and> map_option (\<lambda>r. status (response r))
               (thrown_fields (fst (query tool pf meth path payload))) = Some (status resp))
       \<and> (status resp \<le> 400 \<longrightarrow> \<not> isl (fst (query tool pf meth path payload)))
       \<and> (\<forall>tool' pf' meth' payload' opts' path' resp'.
            build_opts tool' pf' meth' payload' = Inr opts'
            \<and> fetch pf' (baseUrl tool' @ path') opts' = Inr resp'
            \<and> status resp' = status resp \<longrightarrow>
              kind_of (fst (query tool' pf' meth' path' payload')) =
                kind_of (fst (query tool pf meth path payload))
            \<and> isl (fst (query tool' pf' meth' path' payload')) =
                isl (fst (query tool pf meth path payload)))"
proof -
  let ?r = "\<lparr>response = resp, text = response_text resp, data = decode pf (response_text resp)\<rparr>"
  have q: "fst (query tool pf meth path payload) = classify ?r"
    using assms by (rule query_fetched)
  have server: "500 < status resp \<longrightarrow>
      kind_of (fst (query tool pf meth path payload)) = Some ServerError"
    by (simp add: q kind_of_classify)
  have client: "400 < status resp \<and> status resp \<le> 500 \<longrightarrow>
      kind_of (fst (query tool pf meth path payload)) = Some ClientError
      \<and> map_option (\<lambda>r. status (response r))
          (thrown_fields (fst (query tool pf meth path payload))) = Some (status resp)"
    by (simp add: q kind_of_classify thrown_fields_classify)
  have success: "status resp \<le> 400 \<longrightarrow> \<not> isl (fst (query tool pf meth path payload))"
    by (simp add: q isl_classify)
  have same: "\<forall>tool' pf' meth' payload' opts' path' resp'.
            build_opts tool' pf' meth' payload' = Inr opts'
            \<and> fetch pf' (baseUrl tool' @ path') opts' = Inr resp'
            \<and> status resp' = status resp \<longrightarrow>
              kind_of (fst (query tool' pf' meth' path' payload')) =
                kind_of (fst (query tool pf meth path payload))
            \<and> isl (fst (query tool' pf' meth' path' payload')) =
                isl (fst (query tool pf meth path payload))"
  proof (intro allI impI)
    fix tool' pf' meth' payload' opts' path' resp'
    assume h: "build_opts tool' pf' meth' payload' = Inr opts'
            \<and> fetch pf' (baseUrl tool' @ path') opts' = Inr resp'
            \<and> status resp' = status resp"
    then have "fst (query tool' pf' meth' path' payload') =
        classify \<lparr>response = resp', text = response_text resp',
                  data = decode pf' (response_text resp')\<rparr>"
      by (simp add: query_fetched)
    with h show "kind_of (fst (query tool' pf' meth' path' payload')) =
                kind_of (fst (query tool pf meth path payload))
            \<and> isl (fst (query tool' pf' meth' path' payload')) =
                isl (fst (query tool pf meth path payload))"
      by (simp add: q kind_of_classify isl_classify)
  qed
  from server client success same show ?thesis by blast
qed

theorem classified_by_status_witness:
  "kind_of (fst (query demo_tool scripted ''GET'' ''/droplets/999'' JUndefined)) = Some ClientError
   \<and> map_option (\<lambda>r. status (response r))
        (thrown_fields (fst (query demo_tool scripted ''GET'' ''/droplets/999'' JUndefined))) = Some 404
   \<and> kind_of (fst (query demo_tool scripted ''GET'' ''/down'' JUndefined)) = Some ServerError
   \<and> \<not> isl (fst (query demo_tool scripted ''GET'' ''/account'' JUndefined))
   \<and> kind_of (fst (query demo_tool scripted ''DELETE'' ''/droplets/999'' JNull)) = Some ClientError"
proof -
  let ?g = "\<lparr>method = ''GET'', headers = getHeaders demo_tool ''GET'', body = None\<rparr>"
  let ?d = "\<lparr>method = ''DELETE'', headers = getHeaders demo_tool ''DELETE'', body = Some ''null''\<rparr>"
  have g: "build_opts demo_tool scripted ''GET'' JUndefined = Inr ?g"
    by (rule build_opts_undefined)
  have d: "build_opts demo_tool scripted ''DELETE'' JNull = Inr ?d"
    by (simp add: build_opts_defined scripted_simps scripted_stringify_def)
  have f1: "fetch scripted (baseUrl demo_tool @ ''/droplets/999'') ?g =
      Inr \<lparr>status = 404, response_text = Some not_found_text\<rparr>"
    by (simp add: scripted_simps scripted_fetch_def demo_tool_simps)
  have f2: "fetch scripted (baseUrl demo_tool @ ''/down'') ?g =
      Inr \<lparr>status = 503, response_text = Some ''Service Unavailable''\<rparr>"
    by (simp add: scripted_simps scripted_fetch_def demo_tool_simps)
  have f3: "fetch scripted (baseUrl demo_tool @ ''/account'') ?g =
      Inr \<lparr>status = 200, response_text = Some ''ok''\<rparr>"
    by (simp add: scripted_simps scripted_fetch_def demo_tool_simps)
  have f4: "fetch scripted (baseUrl demo_tool @ ''/droplets/999'') ?d =
      Inr \<lparr>status = 404, response_text = Some not_found_text\<rparr>"
    by (simp add: scripted_simps scripted_fetch_def demo_tool_simps)
  note c1 = classified_by_status [OF g f1]
  note c2 = classified_by_status [OF g f2]
  note c3 = classified_by_status [OF g f3]
  have same: "kind_of (fst (query demo_tool scripted ''DELETE'' ''/droplets/999'' JNull)) =
      kind_of (fst (query demo_tool scripted ''GET'' ''/droplets/999'' JUndefined))"
    using c1 [THEN conjunct2, THEN conjunct2, THEN conjunct2, rule_format,
              of demo_tool scripted "''DELETE''" JNull ?d "''/droplets/999''"
                 "\<lparr>status = 404, response_text = Some not_found_text\<rparr>"]
          d f4
    by simp
  from c1 c2 c3 same show ?thesis by simp
qed

section \<open>Request headers\<close>

lemma getHeaders_standard:
  "map_of (getHeaders tool meth) ''Accept'' = Some ''application/json, text/plain, */*''"
  "map_of (getHeaders tool meth) ''Authorization'' = Some (''Bearer '' @ token tool)"
  by (simp_all add: getHeaders_def Let_def)

lemma getHeaders_content_type:
  "map_of (getHeaders tool meth) ''Content-Type'' =
     (if toLowerCase meth = ''put'' \<or> toLowerCase meth = ''post'' \<or> toLowerCase meth = ''patch''
      then Some ''application/json'' else None)"
  by (simp add: getHeaders_def Let_def)

lemma build_opts_headers:
  "build_opts tool pf meth payload = Inr opts \<Longrightarrow>
     headers opts = getHeaders tool meth \<and> method opts = meth"
  by (auto simp add: build_opts_def Let_def split: if_splits sum.splits)

lemma query_sent_cases:
  "snd (query tool pf meth path payload) = []
   \<or> (\<exists>opts. snd (query tool pf meth path payload) = [(baseUrl tool @ path, opts)]
        \<and> headers opts = getHeaders tool meth \<and> method opts = meth)"
proof (cases "build_opts tool pf meth payload")
  case (Inl e)
  then show ?thesis by (simp add: query_throws)
next
  case (Inr opts)
  then show ?thesis using query_sent build_opts_headers by blast
qed

lemma query_sends_headers:
  "sends_headers tool (map_of (getHeaders tool meth) ''Content-Type'')
     (snd (query tool pf meth path payload))"
  using query_sent_cases [of tool pf meth path payload]
  by (auto simp add: sends_headers_def getHeaders_standard)

lemma query_undefined_sent:
  "snd (query tool pf meth path JUndefined) =
     [(baseUrl tool @ path, \<lparr>method = meth, headers = getHeaders tool meth, body = None\<rparr>)]"
  by (rule query_sent) (rule build_opts_undefined)

text \<open>
  Claim C4.  Every request a transport call issues carries
  \<^verbatim>\<open>Accept: application/json, text/plain, */*\<close> and \<^verbatim>\<open>Authorization: Bearer <token>\<close>;
  it carries \<^verbatim>\<open>Content-Type: application/json\<close> when the call is \<^verbatim>\<open>put\<close>, \<^verbatim>\<open>post\<close> or
  \<^verbatim>\<open>patch\<close>, and no \<^verbatim>\<open>Content-Type\<close> when it is \<^verbatim>\<open>get\<close>, \<^verbatim>\<open>head\<close> or \<^verbatim>\<open>delete\<close>.
  A call without a body issues its request, and so does one on whose body
  \<^verbatim>\<open>JSON.stringify\<close> returns.
\<close>

theorem request_headers:
  "sends_headers tool (Some ''application/json'') (snd (put tool pf path v))
   \<and> sends_headers tool (Some ''application/json'') (snd (post tool pf path v))
   \<and> sends_headers tool (Some ''application/json'') (snd (patch tool pf path v))
   \<and> sends_headers tool None (snd (get tool pf path))
   \<and> sends_headers tool None (snd (head tool pf path))
   \<and> sends_headers tool None (snd (delete tool pf path v))
   \<and> length (snd (get tool pf path)) = 1
   \<and> length (snd (head tool pf path)) = 1
   \<and> (\<forall>w s. w \<noteq> JUndefined \<and> JSON_stringify pf w = Inr s \<longrightarrow>
         length (snd (put tool pf path w)) = 1 \<and> length (snd (post tool pf path w)) = 1
       \<and> length (snd (patch tool pf path w)) = 1)
   \<and> length (snd (delete tool pf path JUndefined)) = 1"
proof -
  have ct: "map_of (getHeaders tool ''PUT'') ''Content-Type'' = Some ''application/json''"
    "map_of (getHeaders tool ''POST'') ''Content-Type'' = Some ''application/json''"
    "map_of (getHeaders tool ''PATCH'') ''Content-Type'' = Some ''application/json''"
    "map_of (getHeaders tool ''GET'') ''Content-Type'' = None"
    "map_of (getHeaders tool ''HEAD'') ''Content-Type'' = None"
    "map_of (getHeaders tool ''DELETE'') ''Content-Type'' = None"
    by (simp_all add: getHeaders_content_type lower_literals)
  have a: "sends_headers tool (Some ''application/json'') (snd (put tool pf path v))"
    using query_sends_headers [of tool "''PUT''" pf path v] by (simp add: put_def ct)
  have b: "sends_headers tool (Some ''application/json'') (snd (post tool pf path v))"
    using query_sends_headers [of tool "''POST''" pf path v] by (simp add: post_def ct)
  have c: "sends_headers tool (Some ''application/json'') (snd (patch tool pf path v))"
    using query_sends_headers [of tool "''PATCH''" pf path v] by (simp add: patch_def ct)
  have d: "sends_headers tool None (snd (get tool pf path))"
    using query_sends_headers [of tool "''GET''" pf path JUndefined] by (simp add: get_def ct)
  have e: "sends_headers tool None (snd (head tool pf path))"
    using query_sends_headers [of tool "''HEAD''" pf path JUndefined] by (simp add: head_def ct)
  have f: "sends_headers tool None (snd (delete tool pf path v))"
    using query_sends_headers [of tool "''DELETE''" pf path v] by (simp add: delete_def ct)
  have g: "length (snd (get tool pf path)) = 1" "length (snd (head tool pf path)) = 1"
    "length (snd (delete tool pf path JUndefined)) = 1"
    by (simp_all add: get_def head_def delete_def query_undefined_sent)
  have h: "\<forall>w s. w \<noteq> JUndefined \<and> JSON_stringify pf w = Inr s \<longrightarrow>
         length (snd (put tool pf path w)) = 1 \<and> length (snd (post tool pf path w)) = 1
       \<and> length (snd (patch tool pf path w)) = 1"
  proof (intro allI impI)
    fix w s assume w: "w \<noteq> JUndefined \<and> JSON_stringify pf w = Inr s"
    then have "\<And>meth. build_opts tool pf meth w =
        Inr \<lparr>method = meth, headers = getHeaders tool meth, body = s\<rparr>"
      by (simp add: build_opts_defined)
    then have "\<And>meth. length (snd (query tool pf meth path w)) = 1"
      by (simp add: query_sent)
    then show "length (snd (put tool pf path w)) = 1 \<and> length (snd (post tool pf path w)) = 1
       \<and> length (snd (patch tool pf path w)) = 1"
      by (simp add: put_def post_def patch_def)
  qed
  from a b c d e f g h show ?thesis by blast
qed

theorem request_headers_witness:
  "snd (post demo_tool scripted ''/volumes/v1/actions'' (JObj attach_request)) =
     [(''https://api.test/v2/volumes/v1/actions'',
       \<lparr>method = ''POST'',
         headers = [(''Authorization'', ''Bearer abc123''),
                    (''Accept'', ''application/json, text/plain, */*''),
                    (''Content-Type'', ''application/json'')],
         body = Some attach_text\<rparr>)]
   \<and> sends_headers demo_tool (Some ''application/json'')
        (snd (post demo_tool scripted ''/volumes/v1/actions'' (JObj attach_request)))
   \<and> length (snd (post demo_tool scripted ''/volumes/v1/actions'' (JObj attach_request))) = 1
   \<and> sends_headers demo_tool None (snd (get demo_tool scripted ''/account''))
   \<and> length (snd (get demo_tool scripted ''/account'')) = 1
   \<and> sends_headers demo_tool None (snd (delete demo_tool scripted ''/droplets/999'' JNull))"
proof -
  have s: "JObj attach_request \<noteq> JUndefined
      \<and> JSON_stringify scripted (JObj attach_request) = Inr (Some attach_text)"
    by (simp add: scripted_simps scripted_stringify_def)
  then have "build_opts demo_tool scripted ''POST'' (JObj attach_request) =
      Inr \<lparr>method = ''POST'', headers = getHeaders demo_tool ''POST'', body = Some attach_text\<rparr>"
    by (simp add: build_opts_defined)
  then have sent: "snd (post demo_tool scripted ''/volumes/v1/actions'' (JObj attach_request)) =
     [(''https://api.test/v2/volumes/v1/actions'',
       \<lparr>method = ''POST'',
         headers = [(''Authorization'', ''Bearer abc123''),
                    (''Accept'', ''application/json, text/plain, */*''),
                    (''Content-Type'', ''application/json'')],
         body = Some attach_text\<rparr>)]"
    by (simp add: post_def query_sent getHeaders_demo demo_tool_simps)
  note t = request_headers [of demo_tool scripted "''/volumes/v1/actions''" "JObj attach_request"]
  note u = request_headers [of demo_tool scripted "''/account''" JNull]
  note v = request_headers [of demo_tool scripted "''/droplets/999''" JNull]
  from t s have "sends_headers demo_tool (Some ''application/json'')
        (snd (post demo_tool scripted ''/volumes/v1/actions'' (JObj attach_request)))
      \<and> length (snd (post demo_tool scripted ''/volumes/v1/actions'' (JObj attach_request))) = 1"
    by blast
  moreover from u have "sends_headers demo_tool None (snd (get demo_tool scripted ''/account''))
      \<and> length (snd (get demo_tool scripted ''/account'')) = 1"
    by blast
  moreover from v have
      "sends_headers demo_tool None (snd (delete demo_tool scripted ''/droplets/999'' JNull))"
    by blast
  ultimately show ?thesis using sent by blast
qed

text \<open>
  A body that is not \<^verbatim>\<open>undefined\<close> is not always transmitted: when \<^verbatim>\<open>JSON.stringify\<close>
  throws on it, \<^verbatim>\<open>delete\<close> fails and sends nothing.
\<close>

theorem delete_body_not_sent_counterexample:
  "JBigInt 10 \<noteq> JUndefined
   \<and> JSON_stringify scripted (JBigInt 10) = Inl TypeError
   \<and> delete demo_tool scripted ''/droplets/999'' (JBigInt 10) = (Inl TypeError, [])"
proof -
  have a: "JSON_stringify scripted (JBigInt 10) = Inl TypeError"
    by (simp add: scripted_simps scripted_stringify_def)
  then have "build_opts demo_tool scripted ''DELETE'' (JBigInt 10) = Inl TypeError"
    by (simp add: build_opts_defined)
  then have "delete demo_tool scripted ''/droplets/999'' (JBigInt 10) = (Inl TypeError, [])"
    unfolding delete_def by (rule query_throws)
  with a show ?thesis by simp
qed

text \<open>
  Claim C9, as the code has it.  For \<^verbatim>\<open>delete\<close> with a body that is not \<^verbatim>\<open>undefined\<close>:
  when \<^verbatim>\<open>JSON.stringify\<close> returns, the one request sent has the returned text as its body
  (no body when \<^verbatim>\<open>undefined\<close> was returned) and no \<^verbatim>\<open>Content-Type\<close> header; when it
  throws, nothing is sent.  The headers of a request are those that \<^verbatim>\<open>#getHeaders\<close> builds
  from the method, whatever the body; the \<^verbatim>\<open>Content-Type\<close> is there exactly for the methods
  that read \<^verbatim>\<open>put\<close>, \<^verbatim>\<open>post\<close> or \<^verbatim>\<open>patch\<close> in lower case.
\<close>

theorem delete_body_without_content_type:
  assumes "v \<noteq> JUndefined"
  shows "(\<forall>b. JSON_stringify pf v = Inr b \<longrightarrow>
            snd (delete tool pf path v) =
              [(baseUrl tool @ path,
                \<lparr>method = ''DELETE'',
                  headers = [(''Authorization'', ''Bearer '' @ token tool),
                             (''Accept'', ''application/json, text/plain, */*'')],
                  body = b\<rparr>)])
       \<and> (\<forall>e. JSON_stringify pf v = Inl e \<longrightarrow> delete tool pf path v = (Inl e, []))
       \<and> (\<forall>meth payload opts. build_opts tool pf meth payload = Inr opts \<longrightarrow>
             headers opts = getHeaders tool meth)
       \<and> (\<forall>meth. (map_of (getHeaders tool meth) ''Content-Type'' = Some ''application/json'')
                 = (toLowerCase meth \<in> {''put'', ''post'', ''patch''})
               \<and> (map_of (getHeaders tool meth) ''Content-Type'' = None)
                 = (toLowerCase meth \<notin> {''put'', ''post'', ''patch''}))"
proof -
  have h: "getHeaders tool ''DELETE'' =
      [(''Authorization'', ''Bearer '' @ token tool),
       (''Accept'', ''application/json, text/plain, */*'')]"
    by (simp add: getHeaders_def lower_literals)
  have sent: "\<forall>b. JSON_stringify pf v = Inr b \<longrightarrow>
      snd (delete tool pf path v) =
        [(baseUrl tool @ path,
          \<lparr>method = ''DELETE'', headers = getHeaders tool ''DELETE'', body = b\<rparr>)]"
  proof (intro allI impI)
    fix b assume "JSON_stringify pf v = Inr b"
    with assms have "build_opts tool pf ''DELETE'' v =
        Inr \<lparr>method = ''DELETE'', headers = getHeaders tool ''DELETE'', body = b\<rparr>"
      by (simp add: build_opts_defined)
    then show "snd (delete tool pf path v) =
        [(baseUrl tool @ path,
          \<lparr>method = ''DELETE'', headers = getHeaders tool ''DELETE'', body = b\<rparr>)]"
      unfolding delete_def by (rule query_sent)
  qed
  have thrown: "\<forall>e. JSON_stringify pf v = Inl e \<longrightarrow> delete tool pf path v = (Inl e, [])"
  proof (intro allI impI)
    fix e assume "JSON_stringify pf v = Inl e"
    with assms have "build_opts tool pf ''DELETE'' v = Inl e"
      by (simp add: build_opts_defined)
    then show "delete tool pf path v = (Inl e, [])"
      unfolding delete_def by (rule query_throws)
  qed
  have dep: "\<forall>meth payload opts. build_opts tool pf meth payload = Inr opts \<longrightarrow>
      headers opts = getHeaders tool meth"
    by (simp add: build_opts_headers)
  have ct: "\<forall>meth. (map_of (getHeaders tool meth) ''Content-Type'' = Some ''application/json'')
                 = (toLowerCase meth \<in> {''put'', ''post'', ''patch''})
               \<and> (map_of (getHeaders tool meth) ''Content-Type'' = None)
                 = (toLowerCase meth \<notin> {''put'', ''post'', ''patch''})"
    by (simp add: getHeaders_content_type)
  from sent thrown dep ct show ?thesis by (simp only: h) blast
qed

theorem delete_body_without_content_type_witness:
  "JNull \<noteq> JUndefined \<and> JSON_stringify scripted JNull = Inr (Some ''null'')
   \<and> snd (delete demo_tool scripted ''/droplets/999'' JNull) =
        [(''https://api.test/v2/droplets/999'',
          \<lparr>method = ''DELETE'',
            headers = [(''Authorization'', ''Bearer abc123''),
                       (''Accept'', ''application/json, text/plain, */*'')],
            body = Some ''null''\<rparr>)]
   \<and> JFunction ''() => 1'' \<noteq> JUndefined
   \<and> JSON_stringify scripted (JFunction ''() => 1'') = Inr None
   \<and> snd (delete demo_tool scripted ''/droplets/999'' (JFunction ''() => 1'')) =
        [(''https://api.test/v2/droplets/999'',
          \<lparr>method = ''DELETE'',
            headers = [(''Authorization'', ''Bearer abc123''),
                       (''Accept'', ''application/json, text/plain, */*'')],
            body = None\<rparr>)]
   \<and> JBigInt 7 \<noteq> JUndefined \<and> JSON_stringify scripted (JBigInt 7) = Inl TypeError
   \<and> delete demo_tool scripted ''/droplets/999'' (JBigInt 7) = (Inl TypeError, [])
   \<and> map_of (getHeaders demo_tool ''DELETE'') ''Content-Type'' = None
   \<and> map_of (getHeaders demo_tool ''PATCH'') ''Content-Type'' = Some ''application/json''"
proof -
  have a: "JNull \<noteq> JUndefined" "JFunction ''() => 1'' \<noteq> JUndefined" "JBigInt 7 \<noteq> JUndefined"
    by simp_all
  have b: "JSON_stringify scripted JNull = Inr (Some ''null'')"
    "JSON_stringify scripted (JFunction ''() => 1'') = Inr None"
    "JSON_stringify scripted (JBigInt 7) = Inl TypeError"
    by (simp_all add: scripted_simps scripted_stringify_def)
  note t = delete_body_without_content_type [OF a(1), of scripted demo_tool "''/droplets/999''"]
  note u = delete_body_without_content_type [OF a(2), of scripted demo_tool "''/droplets/999''"]
  note w = delete_body_without_content_type [OF a(3), of scripted demo_tool "''/droplets/999''"]
  from t b(1) have sent: "snd (delete demo_tool scripted ''/droplets/999'' JNull) =
        [(''https://api.test/v2/droplets/999'',
          \<lparr>method = ''DELETE'',
            headers = [(''Authorization'', ''Bearer abc123''),
                       (''Accept'', ''application/json, text/plain, */*'')],
            body = Some ''null''\<rparr>)]"
    by (simp add: demo_tool_simps)
  from u b(2) have bodyless:
      "snd (delete demo_tool scripted ''/droplets/999'' (JFunction ''() => 1'')) =
        [(''https://api.test/v2/droplets/999'',
          \<lparr>method = ''DELETE'',
            headers = [(''Authorization'', ''Bearer abc123''),
                       (''Accept'', ''application/json, text/plain, */*'')],
            body = None\<rparr>)]"
    by (simp add: demo_tool_simps)
  from w b(3) have thrown:
      "delete demo_tool scripted ''/droplets/999'' (JBigInt 7) = (Inl TypeError, [])"
    by simp
  from t have "(map_of (getHeaders demo_tool ''DELETE'') ''Content-Type'' = None)
                 = (toLowerCase ''DELETE'' \<notin> {''put'', ''post'', ''patch''})"
    by blast
  then have del: "map_of (getHeaders demo_tool ''DELETE'') ''Content-Type'' = None"
    by (simp add: lower_literals)
  from t have "(map_of (getHeaders demo_tool ''PATCH'') ''Content-Type'' = Some ''application/json'')
                 = (toLowerCase ''PATCH'' \<in> {''put'', ''post'', ''patch''})"
    by blast
  then have pat: "map_of (getHeaders demo_tool ''PATCH'') ''Content-Type'' = Some ''application/json''"
    by (simp add: lower_literals)
  from a b sent bodyless thrown del pat show ?thesis by blast
qed

section \<open>Local validation of action requests\<close>

lemma attachActionIsValid_iff:
  "attachActionIsValid a = (truthy (property a ''type'') \<and> truthy (property a ''droplet_id''))"
  by (simp add: attachActionIsValid_def)

lemma attachActionByNameIsValid_iff:
  "attachActionByNameIsValid a =
     (truthy (property a ''type'') \<and> truthy (property a ''droplet_id'')
      \<and> truthy (property a ''volume_name''))"
  by (simp add: attachActionByNameIsValid_def attachActionIsValid_iff)

lemma resizeActionIsValid_iff:
  "resizeActionIsValid a =
     (truthy (property a ''type'') \<and> truthy (property a ''size_gigabytes''))"
  by (simp add: resizeActionIsValid_def)

lemma property_absent: "map_of a k = None \<Longrightarrow> property a k = JUndefined"
  by (simp add: property_def)

lemma property_present: "map_of a k = Some v \<Longrightarrow> property a k = v"
  by (simp add: property_def)

lemma rejected_locally:
  "\<not> attachActionIsValid a \<Longrightarrow>
     attachVolumeToDroplet tool pf volumeId a =
       (Inl (Error ''Required fields missing from Action Object'' None), [])"
  "\<not> attachActionIsValid a \<Longrightarrow>
     detachVolumeFromDroplet tool pf volumeId a =
       (Inl (Error ''Required fields missing from Action Object'' None), [])"
  "\<not> attachActionByNameIsValid a \<Longrightarrow>
     attachVolumeToDropletByName tool pf a =
       (Inl (Error ''Required fields missing from Action Object'' None), [])"
  "\<not> attachActionByNameIsValid a \<Longrightarrow>
     detachVolumeFromDropletByName tool pf a =
       (Inl (Error ''Required fields missing from Action Object'' None), [])"
  "\<not> resizeActionIsValid a \<Longrightarrow>
     resizeVolume tool pf volumeId a =
       (Inl (Error ''Required fields missing from Action Object'' None), [])"
  by (simp_all add: attachVolumeToDroplet_def detachVolumeFromDroplet_def
        attachVolumeToDropletByName_def detachVolumeFromDropletByName_def resizeVolume_def)

lemma post_sent:
  "JSON_stringify pf (JObj a) = Inr s \<Longrightarrow>
     snd (then_data (post tool pf path (JObj a)) k) =
       [(baseUrl tool @ path,
         \<lparr>method = ''POST'', headers = getHeaders tool ''POST'', body = s\<rparr>)]"
proof -
  assume "JSON_stringify pf (JObj a) = Inr s"
  then have "build_opts tool pf ''POST'' (JObj a) =
      Inr \<lparr>method = ''POST'', headers = getHeaders tool ''POST'', body = s\<rparr>"
    by (simp add: build_opts_defined)
  then show ?thesis
    by (simp add: then_data_sent post_def query_sent)
qed

lemma issued:
  "attachActionIsValid a \<Longrightarrow> JSON_stringify pf (JObj a) = Inr s \<Longrightarrow>
     snd (attachVolumeToDroplet tool pf volumeId a) =
       [(baseUrl tool @ ''/volumes/'' @ volumeId @ ''/actions'',
         \<lparr>method = ''POST'', headers = getHeaders tool ''POST'', body = s\<rparr>)]"
  "attachActionIsValid a \<Longrightarrow> JSON_stringify pf (JObj a) = Inr s \<Longrightarrow>
     snd (detachVolumeFromDroplet tool pf volumeId a) =
       [(baseUrl tool @ ''/volumes/'' @ volumeId @ ''/actions'',
         \<lparr>method = ''POST'', headers = getHeaders tool ''POST'', body = s\<rparr>)]"
  "attachActionByNameIsValid a \<Longrightarrow> JSON_stringify pf (JObj a) = Inr s \<Longrightarrow>
     snd (attachVolumeToDropletByName tool pf a) =
       [(baseUrl tool @ ''/volumes/actions'',
         \<lparr>method = ''POST'', headers = getHeaders tool ''POST'', body = s\<rparr>)]"
  "attachActionByNameIsValid a \<Longrightarrow> JSON_stringify pf (JObj a) = Inr s \<Longrightarrow>
     snd (detachVolumeFromDropletByName tool pf a) =
       [(baseUrl tool @ ''/volumes/actions'',
         \<lparr>method = ''POST'', headers = getHeaders tool ''POST'', body = s\<rparr>)]"
  "resizeActionIsValid a \<Longrightarrow> JSON_stringify pf (JObj a) = Inr s \<Longrightarrow>
     snd (resizeVolume tool pf volumeId a) =
       [(baseUrl tool @ ''/volumes/'' @ volumeId @ ''/actions'',
         \<lparr>method = ''POST'', headers = getHeaders tool ''POST'', body = s\<rparr>)]"
  by (simp_all add: attachVolumeToDroplet_def detachVolumeFromDroplet_def
        attachVolumeToDropletByName_def detachVolumeFromDropletByName_def resizeVolume_def
        post_sent)

text \<open>
  A request may hold every required field and still be refused: with \<^verbatim>\<open>droplet_id: 0\<close>
  the method throws and issues nothing.
\<close>

theorem present_but_falsy_counterexample:
  "map_of [(''type'', JStr ''attach''), (''droplet_id'', JNum Zero)] ''type'' = Some (JStr ''attach'')
   \<and> map_of [(''type'', JStr ''attach''), (''droplet_id'', JNum Zero)] ''droplet_id'' = Some (JNum Zero)
   \<and> attachVolumeToDroplet demo_tool scripted ''v1''
        [(''type'', JStr ''attach''), (''droplet_id'', JNum Zero)] =
        (Inl (Error ''Required fields missing from Action Object'' None), [])"
  by (simp add: attachVolumeToDroplet_def attachActionIsValid_def property_def)

text \<open>
  Claim C6, as the code has it.  Each of the five methods throws
  \<^verbatim>\<open>Error('Required fields missing from Action Object')\<close>, before any request, when a
  required field is absent or falsy: \<^verbatim>\<open>type\<close> and \<^verbatim>\<open>droplet_id\<close> for attach and detach,
  \<^verbatim>\<open>volume_name\<close> as well for the variants by name, \<^verbatim>\<open>type\<close> and \<^verbatim>\<open>size_gigabytes\<close>
  for resize.  When every required field is truthy and \<^verbatim>\<open>JSON.stringify\<close> returns, the
  one request issued is the POST to the volume's actions, with what it returned as the
  body.  An absent field reads as \<^verbatim>\<open>undefined\<close>, which is falsy.
\<close>

theorem action_requests_validated:
  "(\<not> (truthy (property a ''type'') \<and> truthy (property a ''droplet_id'')) \<longrightarrow>
      attachVolumeToDroplet tool pf volumeId a =
        (Inl (Error ''Required fields missing from Action Object'' None), [])
    \<and> detachVolumeFromDroplet tool pf volumeId a =
        (Inl (Error ''Required fields missing from Action Object'' None), []))
   \<and> (\<not> (truthy (property a ''type'') \<and> truthy (property a ''droplet_id'')
           \<and> truthy (property a ''volume_name'')) \<longrightarrow>
      attachVolumeToDropletByName tool pf a =
        (Inl (Error ''Required fields missing from Action Object'' None), [])
    \<and> detachVolumeFromDropletByName tool pf a =
        (Inl (Error ''Required fields missing from Action Object'' None), []))
   \<and> (\<not> (truthy (property a ''type'') \<and> truthy (property a ''size_gigabytes'')) \<longrightarrow>
      resizeVolume tool pf volumeId a =
        (Inl (Error ''Required fields missing from Action Object'' None), []))
   \<and> (truthy (property a ''type'') \<and> truthy (property a ''droplet_id'')
        \<and> JSON_stringify pf (JObj a) = Inr s \<longrightarrow>
      snd (attachVolumeToDroplet tool pf volumeId a) =
        [(baseUrl tool @ ''/volumes/'' @ volumeId @ ''/actions'',
          \<lparr>method = ''POST'', headers = getHeaders tool ''POST'', body = s\<rparr>)]
    \<and> snd (detachVolumeFromDroplet tool pf volumeId a) =
        [(baseUrl tool @ ''/volumes/'' @ volumeId @ ''/actions'',
          \<lparr>method = ''POST'', headers = getHeaders tool ''POST'', body = s\<rparr>)])
   \<and> (truthy (property a ''type'') \<and> truthy (property a ''droplet_id'')
        \<and> truthy (property a ''volume_name'') \<and> JSON_stringify pf (JObj a) = Inr s \<longrightarrow>
      snd (attachVolumeToDropletByName tool pf a) =
        [(baseUrl tool @ ''/volumes/actions'',
          \<lparr>method = ''POST'', headers = getHeaders tool ''POST'', body = s\<rparr>)]
    \<and> snd (detachVolumeFromDropletByName tool pf a) =
        [(baseUrl tool @ ''/volumes/actions'',
          \<lparr>method = ''POST'', headers = getHeaders tool ''POST'', body = s\<rparr>)])
   \<and> (truthy (property a ''type'') \<and> truthy (property a ''size_gigabytes'')
        \<and> JSON_stringify pf (JObj a) = Inr s \<longrightarrow>
      snd (resizeVolume tool pf volumeId a) =
        [(baseUrl tool @ ''/volumes/'' @ volumeId @ ''/actions'',
          \<lparr>method = ''POST'', headers = getHeaders tool ''POST'', body = s\<rparr>)])
   \<and> (\<forall>k. map_of a k = None \<longrightarrow> \<not> truthy (property a k))"
proof -
  have r1: "\<not> (truthy (property a ''type'') \<and> truthy (property a ''droplet_id'')) \<longrightarrow>
      attachVolumeToDroplet tool pf volumeId a =
        (Inl (Error ''Required fields missing from Action Object'' None), [])
    \<and> detachVolumeFromDroplet tool pf volumeId a =
        (Inl (Error ''Required fields missing from Action Object'' None), [])"
    using rejected_locally(1,2) [of a tool pf volumeId]
    by (simp add: attachActionIsValid_iff)
  have r2: "\<not> (truthy (property a ''type'') \<and> truthy (property a ''droplet_id'')
           \<and> truthy (property a ''volume_name'')) \<longrightarrow>
      attachVolumeToDropletByName tool pf a =
        (Inl (Error ''Required fields missing from Action Object'' None), [])
    \<and> detachVolumeFromDropletByName tool pf a =
        (Inl (Error ''Required fields missing from Action Object'' None), [])"
    using rejected_locally(3,4) [of a tool pf]
    by (simp add: attachActionByNameIsValid_iff)
  have r3: "\<not> (truthy (property a ''type'') \<and> truthy (property a ''size_gigabytes'')) \<longrightarrow>
      resizeVolume tool pf volumeId a =
        (Inl (Error ''Required fields missing from Action Object'' None), [])"
    using rejected_locally(5) [of a tool pf volumeId]
    by (simp add: resizeActionIsValid_iff)
  have i1: "truthy (property a ''type'') \<and> truthy (property a ''droplet_id'')
        \<and> JSON_stringify pf (JObj a) = Inr s \<longrightarrow>
      snd (attachVolumeToDroplet tool pf volumeId a) =
        [(baseUrl tool @ ''/volumes/'' @ volumeId @ ''/actions'',
          \<lparr>method = ''POST'', headers = getHeaders tool ''POST'', body = s\<rparr>)]
    \<and> snd (detachVolumeFromDroplet tool pf volumeId a) =
        [(baseUrl tool @ ''/volumes/'' @ volumeId @ ''/actions'',
          \<lparr>method = ''POST'', headers = getHeaders tool ''POST'', body = s\<rparr>)]"
    using issued(1,2) [of a pf s tool volumeId]
    by (simp add: attachActionIsValid_iff)
  have i2: "truthy (property a ''type'') \<and> truthy (property a ''droplet_id'')
        \<and> truthy (property a ''volume_name'') \<and> JSON_stringify pf (JObj a) = Inr s \<longrightarrow>
      snd (attachVolumeToDropletByName tool pf a) =
        [(baseUrl tool @ ''/volumes/actions'',
          \<lparr>method = ''POST'', headers = getHeaders tool ''POST'', body = s\<rparr>)]
    \<and> snd (detachVolumeFromDropletByName tool pf a) =
        [(baseUrl tool @ ''/volumes/actions'',
          \<lparr>method = ''POST'', headers = getHeaders tool ''POST'', body = s\<rparr>)]"
    using issued(3,4) [of a pf s tool]
    by (simp add: attachActionByNameIsValid_iff)
  have i3: "truthy (property a ''type'') \<and> truthy (property a ''size_gigabytes'')
        \<and> JSON_stringify pf (JObj a) = Inr s \<longrightarrow>
      snd (resizeVolume tool pf volumeId a) =
        [(baseUrl tool @ ''/volumes/'' @ volumeId @ ''/actions'',
          \<lparr>method = ''POST'', headers = getHeaders tool ''POST'', body = s\<rparr>)]"
    using issued(5) [of a pf s tool volumeId]
    by (simp add: resizeActionIsValid_iff)
  have ab: "\<forall>k. map_of a k = None \<longrightarrow> \<not> truthy (property a k)"
    by (simp add: property_absent)
  from r1 r2 r3 i1 i2 i3 ab show ?thesis by (intro conjI)
qed

lemma scripted_stringify_requests:
  "JSON_stringify scripted (JObj attach_request) = Inr (Some attach_text)"
  "JSON_stringify scripted (JObj attach_by_name_request) = Inr (Some attach_by_name_text)"
  "JSON_stringify scripted (JObj resize_request) = Inr (Some resize_text)"
  by (simp_all add: scripted_simps scripted_stringify_def attach_request_def
        attach_by_name_request_def resize_request_def)

theorem action_requests_validated_witness:
  "attachVolumeToDroplet demo_tool scripted ''v1'' [(''type'', JStr ''attach'')] =
     (Inl (Error ''Required fields missing from Action Object'' None), [])
   \<and> detachVolumeFromDropletByName demo_tool scripted [(''type'', JStr ''attach'')] =
     (Inl (Error ''Required fields missing from Action Object'' None), [])
   \<and> resizeVolume demo_tool scripted ''v1'' [(''type'', JStr ''attach'')] =
     (Inl (Error ''Required fields missing from Action Object'' None), [])
   \<and> \<not> truthy (property [(''type'', JStr ''attach'')] ''droplet_id'')
   \<and> snd (attachVolumeToDroplet demo_tool scripted ''v1'' attach_request) =
       [(''https://api.test/v2/volumes/v1/actions'',
         \<lparr>method = ''POST'', headers = getHeaders demo_tool ''POST'', body = Some attach_text\<rparr>)]
   \<and> snd (attachVolumeToDropletByName demo_tool scripted attach_by_name_request) =
       [(''https://api.test/v2/volumes/actions'',
         \<lparr>method = ''POST'', headers = getHeaders demo_tool ''POST'',
           body = Some attach_by_name_text\<rparr>)]
   \<and> snd (resizeVolume demo_tool scripted ''v1'' resize_request) =
       [(''https://api.test/v2/volumes/v1/actions'',
         \<lparr>method = ''POST'', headers = getHeaders demo_tool ''POST'', body = Some resize_text\<rparr>)]"
proof -
  note t1 = action_requests_validated
    [of "[(''type'', JStr ''attach'')]" demo_tool scripted "''v1''" None]
  have p1: "\<not> truthy (property [(''type'', JStr ''attach'')] ''droplet_id'')"
    "\<not> truthy (property [(''type'', JStr ''attach'')] ''volume_name'')"
    "\<not> truthy (property [(''type'', JStr ''attach'')] ''size_gigabytes'')"
    "map_of [(''type'', JStr ''attach'')] ''droplet_id'' = None"
    by (simp_all add: property_def)
  from t1 p1 have a: "attachVolumeToDroplet demo_tool scripted ''v1'' [(''type'', JStr ''attach'')] =
     (Inl (Error ''Required fields missing from Action Object'' None), [])
   \<and> detachVolumeFromDropletByName demo_tool scripted [(''type'', JStr ''attach'')] =
     (Inl (Error ''Required fields missing from Action Object'' None), [])
   \<and> resizeVolume demo_tool scripted ''v1'' [(''type'', JStr ''attach'')] =
     (Inl (Error ''Required fields missing from Action Object'' None), [])"
    by blast
  note t2 = action_requests_validated
    [of attach_request demo_tool scripted "''v1''" "Some attach_text"]
  have p2: "truthy (property attach_request ''type'')"
    "truthy (property attach_request ''droplet_id'')"
    by (simp_all add: property_def attach_request_def)
  from t2 p2 scripted_stringify_requests(1)
  have b: "snd (attachVolumeToDroplet demo_tool scripted ''v1'' attach_request) =
       [(''https://api.test/v2/volumes/v1/actions'',
         \<lparr>method = ''POST'', headers = getHeaders demo_tool ''POST'', body = Some attach_text\<rparr>)]"
    by (simp add: demo_tool_simps)
  note t3 = action_requests_validated
    [of attach_by_name_request demo_tool scripted "''v1''" "Some attach_by_name_text"]
  have p3: "truthy (property attach_by_name_request ''type'')"
    "truthy (property attach_by_name_request ''droplet_id'')"
    "truthy (property attach_by_name_request ''volume_name'')"
    by (simp_all add: property_def attach_by_name_request_def)
  from t3 p3 scripted_stringify_requests(2)
  have c: "snd (attachVolumeToDropletByName demo_tool scripted attach_by_name_request) =
       [(''https://api.test/v2/volumes/actions'',
         \<lparr>method = ''POST'', headers = getHeaders demo_tool ''POST'',
           body = Some attach_by_name_text\<rparr>)]"
    by (simp add: demo_tool_simps)
  note t4 = action_requests_validated
    [of resize_request demo_tool scripted "''v1''" "Some resize_text"]
  have p4: "truthy (property resize_request ''type'')"
    "truthy (property resize_request ''size_gigabytes'')"
    by (simp_all add: property_def resize_request_def)
  from t4 p4 scripted_stringify_requests(3)
  have d: "snd (resizeVolume demo_tool scripted ''v1'' resize_request) =
       [(''https://api.test/v2/volumes/v1/actions'',
         \<lparr>method = ''POST'', headers = getHeaders demo_tool ''POST'', body = Some resize_text\<rparr>)]"
    by (simp add: demo_tool_simps)
  from a p1(1) b c d show ?thesis by blast
qed

text \<open>
  Claim C10.  The three validators are conjunctions of truthiness tests.  A request whose
  \<^verbatim>\<open>droplet_id\<close> is \<^verbatim>\<open>0\<close>, whose \<^verbatim>\<open>size_gigabytes\<close> is \<^verbatim>\<open>0\<close> or whose \<^verbatim>\<open>type\<close> is the
  empty string is refused with the error of a missing field, and nothing is sent.
\<close>

theorem validators_test_truthiness:
  "attachActionIsValid a = (truthy (property a ''type'') \<and> truthy (property a ''droplet_id''))
   \<and> attachActionByNameIsValid a =
       (truthy (property a ''type'') \<and> truthy (property a ''droplet_id'')
        \<and> truthy (property a ''volume_name''))
   \<and> resizeActionIsValid a =
       (truthy (property a ''type'') \<and> truthy (property a ''size_gigabytes''))
   \<and> (map_of a ''droplet_id'' = Some (JNum Zero) \<or> map_of a ''type'' = Some (JStr '''') \<longrightarrow>
        attachVolumeToDroplet tool pf volumeId a =
          (Inl (Error ''Required fields missing from Action Object'' None), [])
      \<and> detachVolumeFromDroplet tool pf volumeId a =
          (Inl (Error ''Required fields missing from Action Object'' None), [])
      \<and> attachVolumeToDropletByName tool pf a =
          (Inl (Error ''Required fields missing from Action Object'' None), [])
      \<and> detachVolumeFromDropletByName tool pf a =
          (Inl (Error ''Required fields missing from Action Object'' None), []))
   \<and> (map_of a ''size_gigabytes'' = Some (JNum Zero) \<or> map_of a ''type'' = Some (JStr '''') \<longrightarrow>
        resizeVolume tool pf volumeId a =
          (Inl (Error ''Required fields missing from Action Object'' None), []))"
proof -
  have falsy: "map_of a ''droplet_id'' = Some (JNum Zero) \<Longrightarrow> \<not> truthy (property a ''droplet_id'')"
    "map_of a ''type'' = Some (JStr '''') \<Longrightarrow> \<not> truthy (property a ''type'')"
    "map_of a ''size_gigabytes'' = Some (JNum Zero) \<Longrightarrow> \<not> truthy (property a ''size_gigabytes'')"
    by (simp_all add: property_present)
  have v: "map_of a ''droplet_id'' = Some (JNum Zero) \<or> map_of a ''type'' = Some (JStr '''') \<Longrightarrow>
      \<not> attachActionIsValid a \<and> \<not> attachActionByNameIsValid a"
    using falsy by (auto simp add: attachActionIsValid_iff attachActionByNameIsValid_iff)
  have w: "map_of a ''size_gigabytes'' = Some (JNum Zero) \<or> map_of a ''type'' = Some (JStr '''') \<Longrightarrow>
      \<not> resizeActionIsValid a"
    using falsy by (auto simp add: resizeActionIsValid_iff)
  show ?thesis
    using v w rejected_locally [of a tool pf]
    by (simp add: attachActionIsValid_iff attachActionByNameIsValid_iff resizeActionIsValid_iff)
qed

theorem validators_test_truthiness_witness:
  "map_of [(''type'', JStr ''attach''), (''droplet_id'', JNum Zero), (''region'', JStr ''nyc1'')]
      ''droplet_id'' = Some (JNum Zero)
   \<and> attachVolumeToDroplet demo_tool scripted ''v1''
        [(''type'', JStr ''attach''), (''droplet_id'', JNum Zero), (''region'', JStr ''nyc1'')] =
        (Inl (Error ''Required fields missing from Action Object'' None), [])
   \<and> \<not> attachActionIsValid
        [(''type'', JStr ''attach''), (''droplet_id'', JNum Zero), (''region'', JStr ''nyc1'')]
   \<and> map_of [(''type'', JStr ''resize''), (''size_gigabytes'', JNum Zero)] ''size_gigabytes'' =
        Some (JNum Zero)
   \<and> resizeVolume demo_tool scripted ''v1''
        [(''type'', JStr ''resize''), (''size_gigabytes'', JNum Zero)] =
        (Inl (Error ''Required fields missing from Action Object'' None), [])
   \<and> map_of [(''type'', JStr ''''), (''droplet_id'', JNum (Nonzero ''42'')), (''volume_name'', JStr ''example'')]
        ''type'' = Some (JStr '''')
   \<and> detachVolumeFromDropletByName demo_tool scripted
        [(''type'', JStr ''''), (''droplet_id'', JNum (Nonzero ''42'')), (''volume_name'', JStr ''example'')] =
        (Inl (Error ''Required fields missing from Action Object'' None), [])"
proof -
  have m: "map_of [(''type'', JStr ''attach''), (''droplet_id'', JNum Zero), (''region'', JStr ''nyc1'')]
      ''droplet_id'' = Some (JNum Zero)"
    "map_of [(''type'', JStr ''resize''), (''size_gigabytes'', JNum Zero)] ''size_gigabytes'' =
        Some (JNum Zero)"
    "map_of [(''type'', JStr ''''), (''droplet_id'', JNum (Nonzero ''42'')), (''volume_name'', JStr ''example'')]
        ''type'' = Some (JStr '''')"
    by simp_all
  note t1 = validators_test_truthiness
    [of "[(''type'', JStr ''attach''), (''droplet_id'', JNum Zero), (''region'', JStr ''nyc1'')]"
        demo_tool scripted "''v1''"]
  note t2 = validators_test_truthiness
    [of "[(''type'', JStr ''resize''), (''size_gigabytes'', JNum Zero)]" demo_tool scripted "''v1''"]
  note t3 = validators_test_truthiness
    [of "[(''type'', JStr ''''), (''droplet_id'', JNum (Nonzero ''42'')), (''volume_name'', JStr ''example'')]"
        demo_tool scripted "''v1''"]
  from t1 m(1) have a: "attachVolumeToDroplet demo_tool scripted ''v1''
        [(''type'', JStr ''attach''), (''droplet_id'', JNum Zero), (''region'', JStr ''nyc1'')] =
        (Inl (Error ''Required fields missing from Action Object'' None), [])"
    by blast
  from t1 have b: "\<not> attachActionIsValid
        [(''type'', JStr ''attach''), (''droplet_id'', JNum Zero), (''region'', JStr ''nyc1'')]"
    by (simp add: property_def)
  from t2 m(2) have c: "resizeVolume demo_tool scripted ''v1''
        [(''type'', JStr ''resize''), (''size_gigabytes'', JNum Zero)] =
        (Inl (Error ''Required fields missing from Action Object'' None), [])"
    by blast
  from t3 m(3) have d: "detachVolumeFromDropletByName demo_tool scripted
        [(''type'', JStr ''''), (''droplet_id'', JNum (Nonzero ''42'')), (''volume_name'', JStr ''example'')] =
        (Inl (Error ''Required fields missing from Action Object'' None), [])"
    by blast
  from m a b c d show ?thesis by blast
qed

section \<open>Paging of the action lists\<close>

lemma get_sent:
  "snd (then_data (get tool pf path) k) =
     [(baseUrl tool @ path, \<lparr>method = ''GET'', headers = getHeaders tool ''GET'', body = None\<rparr>)]"
  by (simp add: then_data_sent get_def query_sent build_opts_undefined)

lemma getAllActions_url:
  "map fst (snd (getAllActions tool pf perPage page)) =
     [baseUrl tool @ ''/actions?page='' @ ToString (js_or page (JNum (Nonzero ''1'')))
        @ ''&per_page='' @ ToString (js_or perPage (JNum (Nonzero ''25'')))]"
  by (simp add: getAllActions_def Let_def get_sent)

lemma getAllVolumeActions_url:
  "map fst (snd (getAllVolumeActions tool pf volumeId perPage page)) =
     [baseUrl tool @ ''/volumes/'' @ volumeId @ ''/actions?page=''
        @ ToString (nullish page (JNum (Nonzero ''1'')))
        @ ''&per_page='' @ ToString (js_or perPage (JNum (Nonzero ''25'')))]"
  by (simp add: getAllVolumeActions_def Let_def get_sent)

text \<open>
  A page of \<^verbatim>\<open>0\<close> given to \<^verbatim>\<open>getAllActions\<close> is replaced by \<^verbatim>\<open>1\<close>, and a page size of
  \<^verbatim>\<open>0\<close> by \<^verbatim>\<open>25\<close>: a supplied value is not always echoed.
\<close>

theorem zero_page_counterexample:
  "map fst (snd (getAllActions demo_tool scripted (JNum (Nonzero ''10'')) (JNum Zero))) =
     [''https://api.test/v2/actions?page=1&per_page=10'']
   \<and> map fst (snd (getAllActions demo_tool scripted (JNum (Nonzero ''10'')) (JNum Zero))) \<noteq>
     [''https://api.test/v2/actions?page=0&per_page=10'']
   \<and> map fst (snd (getAllVolumeActions demo_tool scripted ''v1'' (JNum Zero)
                     (JNum (Nonzero ''3'')))) =
     [''https://api.test/v2/volumes/v1/actions?page=3&per_page=25'']"
  by (simp add: getAllActions_url getAllVolumeActions_url js_or_def nullish_def demo_tool_simps)

text \<open>
  Claim C7, as the code has it.  Each argument is treated on its own.  An omitted page
  gives \<^verbatim>\<open>page=1\<close> and an omitted page size \<^verbatim>\<open>per_page=25\<close>; a supplied number other
  than zero and \<^verbatim>\<open>NaN\<close> is echoed, as the string it converts to.  This holds for the
  account's actions and for a volume's, in each of the four combinations.
\<close>

theorem action_list_paging:
  "map fst (snd (getAllActions tool pf JUndefined JUndefined)) =
     [baseUrl tool @ ''/actions?page=1&per_page=25'']
   \<and> map fst (snd (getAllActions tool pf JUndefined (JNum (Nonzero p)))) =
     [baseUrl tool @ ''/actions?page='' @ p @ ''&per_page=25'']
   \<and> map fst (snd (getAllActions tool pf (JNum (Nonzero n)) JUndefined)) =
     [baseUrl tool @ ''/actions?page=1&per_page='' @ n]
   \<and> map fst (snd (getAllActions tool pf (JNum (Nonzero n)) (JNum (Nonzero p)))) =
     [baseUrl tool @ ''/actions?page='' @ p @ ''&per_page='' @ n]
   \<and> map fst (snd (getAllVolumeActions tool pf volumeId JUndefined JUndefined)) =
     [baseUrl tool @ ''/volumes/'' @ volumeId @ ''/actions?page=1&per_page=25'']
   \<and> map fst (snd (getAllVolumeActions tool pf volumeId JUndefined (JNum (Nonzero p)))) =
     [baseUrl tool @ ''/volumes/'' @ volumeId @ ''/actions?page='' @ p @ ''&per_page=25'']
   \<and> map fst (snd (getAllVolumeActions tool pf volumeId (JNum (Nonzero n)) JUndefined)) =
     [baseUrl tool @ ''/volumes/'' @ volumeId @ ''/actions?page=1&per_page='' @ n]
   \<and> map fst (snd (getAllVolumeActions tool pf volumeId (JNum (Nonzero n))
                     (JNum (Nonzero p)))) =
     [baseUrl tool @ ''/volumes/'' @ volumeId @ ''/actions?page='' @ p @ ''&per_page='' @ n]"
proof -
  have a: "map fst (snd (getAllActions tool pf JUndefined JUndefined)) =
     [baseUrl tool @ ''/actions?page=1&per_page=25'']"
    "map fst (snd (getAllActions tool pf JUndefined (JNum (Nonzero p)))) =
     [baseUrl tool @ ''/actions?page='' @ p @ ''&per_page=25'']"
    "map fst (snd (getAllActions tool pf (JNum (Nonzero n)) JUndefined)) =
     [baseUrl tool @ ''/actions?page=1&per_page='' @ n]"
    "map fst (snd (getAllActions tool pf (JNum (Nonzero n)) (JNum (Nonzero p)))) =
     [baseUrl tool @ ''/actions?page='' @ p @ ''&per_page='' @ n]"
    by (simp_all add: getAllActions_url js_or_def)
  have b: "map fst (snd (getAllVolumeActions tool pf volumeId JUndefined JUndefined)) =
     [baseUrl tool @ ''/volumes/'' @ volumeId @ ''/actions?page=1&per_page=25'']"
    "map fst (snd (getAllVolumeActions tool pf volumeId JUndefined (JNum (Nonzero p)))) =
     [baseUrl tool @ ''/volumes/'' @ volumeId @ ''/actions?page='' @ p @ ''&per_page=25'']"
    "map fst (snd (getAllVolumeActions tool pf volumeId (JNum (Nonzero n)) JUndefined)) =
     [baseUrl tool @ ''/volumes/'' @ volumeId @ ''/actions?page=1&per_page='' @ n]"
    "map fst (snd (getAllVolumeActions tool pf volumeId (JNum (Nonzero n))
                     (JNum (Nonzero p)))) =
     [baseUrl tool @ ''/volumes/'' @ volumeId @ ''/actions?page='' @ p @ ''&per_page='' @ n]"
    by (simp_all add: getAllVolumeActions_url js_or_def nullish_def)
  from a b show ?thesis by (intro conjI)
qed

theorem action_list_paging_witness:
  "map fst (snd (getAllActions demo_tool scripted JUndefined JUndefined)) =
     [''https://api.test/v2/actions?page=1&per_page=25'']
   \<and> map fst (snd (getAllActions demo_tool scripted (JNum (Nonzero ''10'')) JUndefined)) =
     [''https://api.test/v2/actions?page=1&per_page=10'']
   \<and> map fst (snd (getAllActions demo_tool scripted JUndefined (JNum (Nonzero ''2'')))) =
     [''https://api.test/v2/actions?page=2&per_page=25'']
   \<and> map fst (snd (getAllActions demo_tool scripted (JNum (Nonzero ''10''))
                     (JNum (Nonzero ''2'')))) =
     [''https://api.test/v2/actions?page=2&per_page=10'']
   \<and> map fst (snd (getAllVolumeActions demo_tool scripted ''v1'' JUndefined JUndefined)) =
     [''https://api.test/v2/volumes/v1/actions?page=1&per_page=25'']
   \<and> map fst (snd (getAllVolumeActions demo_tool scripted ''v1'' (JNum (Nonzero ''10''))
                     JUndefined)) =
     [''https://api.test/v2/volumes/v1/actions?page=1&per_page=10'']
   \<and> map fst (snd (getAllVolumeActions demo_tool scripted ''v1'' (JNum (Nonzero ''1e+21''))
                     (JNum (Nonzero ''2'')))) =
     [''https://api.test/v2/volumes/v1/actions?page=2&per_page=1e+21'']"
  using action_list_paging [of demo_tool scripted "''2''" "''10''" "''v1''"]
        action_list_paging [of demo_tool scripted "''2''" "''1e+21''" "''v1''"]
  by (simp add: demo_tool_simps)

section \<open>Decoding the response\<close>

lemma decode_never_reads_text:
  "JSON_parse pf ''null'' = Inr JNull \<Longrightarrow> decode pf t = JNull"
  by (simp add: decode_parses_null)

lemma scripted_parse_null: "JSON_parse scripted ''null'' = Inr JNull"
  by (simp add: scripted_simps scripted_parse_def)

text \<open>
  Claim C1, at the response \<^verbatim>\<open>202 {"action":{"id":9,"status":"in-progress"}}\<close>.  The
  text is valid JSON and parses to an object with an \<^verbatim>\<open>action\<close>; the call resolves, with
  the text kept and \<open>data\<close> \<^verbatim>\<open>null\<close>, and the service method that reads
  \<^verbatim>\<open>response.data.action\<close> throws a \<^verbatim>\<open>TypeError\<close>.
\<close>

theorem accepted_action_is_lost:
  "JSON_parse scripted accepted_text = Inr accepted_value
   \<and> member accepted_value ''action'' =
       Inr (JObj [(''id'', JNum (Nonzero ''9'')), (''status'', JStr ''in-progress'')])
   \<and> fst (post demo_tool scripted ''/volumes/v1/actions'' (JObj attach_request)) =
       Inr \<lparr>response = \<lparr>status = 202, response_text = Some accepted_text\<rparr>,
            text = Some accepted_text, data = JNull\<rparr>
   \<and> fst (attachVolumeToDroplet demo_tool scripted ''v1'' attach_request) = Inl TypeError"
proof -
  have parsed: "JSON_parse scripted accepted_text = Inr accepted_value"
    by (simp add: scripted_simps scripted_parse_def accepted_text_def not_found_text_def)
  have action: "member accepted_value ''action'' =
       Inr (JObj [(''id'', JNum (Nonzero ''9'')), (''status'', JStr ''in-progress'')])"
    by (simp add: accepted_value_def property_def)
  have opts: "build_opts demo_tool scripted ''POST'' (JObj attach_request) =
      Inr \<lparr>method = ''POST'', headers = getHeaders demo_tool ''POST'', body = Some attach_text\<rparr>"
    by (simp add: build_opts_defined scripted_stringify_requests)
  have fetched: "fetch scripted (baseUrl demo_tool @ ''/volumes/v1/actions'')
      \<lparr>method = ''POST'', headers = getHeaders demo_tool ''POST'', body = Some attach_text\<rparr> =
      Inr \<lparr>status = 202, response_text = Some accepted_text\<rparr>"
    by (simp add: scripted_simps scripted_fetch_def demo_tool_simps)
  have nonempty: "accepted_text \<noteq> []"
    by (simp add: accepted_text_def)
  have result: "fst (post demo_tool scripted ''/volumes/v1/actions'' (JObj attach_request)) =
       Inr \<lparr>response = \<lparr>status = 202, response_text = Some accepted_text\<rparr>,
            text = Some accepted_text, data = JNull\<rparr>"
    unfolding post_def
    by (simp add: query_fetched [OF opts fetched] classify_def
          decode_never_reads_text [OF scripted_parse_null])
  have valid: "attachActionIsValid attach_request"
    by (simp add: attachActionIsValid_def property_def attach_request_def)
  have service: "fst (attachVolumeToDroplet demo_tool scripted ''v1'' attach_request) = Inl TypeError"
    using result valid by (simp add: attachVolumeToDroplet_def then_data_def)
  from parsed action result service show ?thesis by (intro conjI)
qed

text \<open>
  Claim C3, at the response \<^verbatim>\<open>404 {"id":"not_found"}\<close>.  The thrown client error
  carries the response and the text; its \<open>data\<close> is \<^verbatim>\<open>null\<close>, not the decoded body, so
  that reading \<^verbatim>\<open>data.id\<close> throws.
\<close>

theorem not_found_data_is_lost:
  "JSON_parse scripted not_found_text = Inr not_found_value
   \<and> member not_found_value ''id'' = Inr (JStr ''not_found'')
   \<and> fst (get demo_tool scripted ''/droplets/999'') =
       Inl (Error ''Client Error Result''
         (Some \<lparr>response = \<lparr>status = 404, response_text = Some not_found_text\<rparr>,
                text = Some not_found_text, data = JNull\<rparr>))
   \<and> member JNull ''id'' = Inl TypeError"
proof -
  have parsed: "JSON_parse scripted not_found_text = Inr not_found_value"
    by (simp add: scripted_simps scripted_parse_def not_found_text_def)
  have ident: "member not_found_value ''id'' = Inr (JStr ''not_found'')"
    by (simp add: not_found_value_def property_def)
  have fetched: "fetch scripted (baseUrl demo_tool @ ''/droplets/999'')
      \<lparr>method = ''GET'', headers = getHeaders demo_tool ''GET'', body = None\<rparr> =
      Inr \<lparr>status = 404, response_text = Some not_found_text\<rparr>"
    by (simp add: scripted_simps scripted_fetch_def demo_tool_simps)
  have thrown: "fst (get demo_tool scripted ''/droplets/999'') =
       Inl (Error ''Client Error Result''
         (Some \<lparr>response = \<lparr>status = 404, response_text = Some not_found_text\<rparr>,
                text = Some not_found_text, data = JNull\<rparr>))"
    unfolding get_def
    by (simp add: query_fetched [OF build_opts_undefined fetched] classify_def
          decode_never_reads_text [OF scripted_parse_null])
  from parsed ident thrown show ?thesis by simp
qed

end
